theory Spec2Isabelle
  imports Complex_Main
begin

section \<open>Floating-point values and their comparisons\<close>

text \<open>
  Coordinates are Python floats. Only comparisons are applied to them, never arithmetic,
  so a float is modelled by the real number it denotes, together with the three special
  values. Every comparison with \<open>NaN\<close> is false, as in Python.
\<close>

datatype pyfloat = NaN | NegInf | Fin real | PosInf

fun fle :: "pyfloat \<Rightarrow> pyfloat \<Rightarrow> bool" where
  "fle NaN _ = False"
| "fle _ NaN = False"
| "fle NegInf _ = True"
| "fle _ PosInf = True"
| "fle (Fin x) (Fin y) = (x \<le> y)"
| "fle (Fin _) NegInf = False"
| "fle PosInf _ = False"

fun fgt :: "pyfloat \<Rightarrow> pyfloat \<Rightarrow> bool" where
  "fgt NaN _ = False"
| "fgt _ NaN = False"
| "fgt NegInf _ = False"
| "fgt PosInf PosInf = False"
| "fgt PosInf _ = True"
| "fgt (Fin x) (Fin y) = (x > y)"
| "fgt (Fin _) NegInf = True"
| "fgt (Fin _) PosInf = False"

fun feq :: "pyfloat \<Rightarrow> pyfloat \<Rightarrow> bool" where
  "feq (Fin x) (Fin y) = (x = y)"
| "feq NegInf NegInf = True"
| "feq PosInf PosInf = True"
| "feq _ _ = False"

fun fabs :: "pyfloat \<Rightarrow> pyfloat" where
  "fabs NaN = NaN"
| "fabs NegInf = PosInf"
| "fabs PosInf = PosInf"
| "fabs (Fin x) = Fin \<bar>x\<bar>"

text \<open>\<open>pd.isna\<close> on a float.\<close>

definition isna :: "pyfloat \<Rightarrow> bool" where
  "isna x = (x = NaN)"

section \<open>Configuration: the bounding boxes of \<open>Config\<close>\<close>

record box =
  min_lat :: real
  max_lat :: real
  min_lon :: real
  max_lon :: real

text \<open>\<open>Config.INDONESIA_STRICT_BOUNDS\<close>: a dict, iterated in insertion order.\<close>

definition INDONESIA_STRICT_BOUNDS :: "(string \<times> box) list" where
  "INDONESIA_STRICT_BOUNDS =
    [(''sumatera'',   \<lparr>min_lat = - 6.0, max_lat = 5.5, min_lon = 95.0, max_lon = 105.8\<rparr>),
     (''jawa'',       \<lparr>min_lat = - 8.9, max_lat = - 5.5, min_lon = 105.5, max_lon = 114.5\<rparr>),
     (''kalimantan'', \<lparr>min_lat = - 4.2, max_lat = 4.0, min_lon = 108.5, max_lon = 119.0\<rparr>),
     (''bali_nt'',    \<lparr>min_lat = - 9.5, max_lat = - 8.0, min_lon = 115.0, max_lon = 119.0\<rparr>),
     (''sulawesi'',   \<lparr>min_lat = - 6.5, max_lat = 1.5, min_lon = 118.5, max_lon = 125.0\<rparr>)]"

text \<open>\<open>Config.FORBIDDEN_AREAS\<close>: West Malaysia, Singapore, East Malaysia and Brunei,
  the southern Philippines, Timor Leste, Papua New Guinea.\<close>

definition FORBIDDEN_AREAS :: "box list" where
  "FORBIDDEN_AREAS =
    [\<lparr>min_lat = 1.0, max_lat = 7.0, min_lon = 99.0, max_lon = 105.0\<rparr>,
     \<lparr>min_lat = 1.2, max_lat = 1.5, min_lon = 103.5, max_lon = 104.2\<rparr>,
     \<lparr>min_lat = 4.0, max_lat = 8.0, min_lon = 109.0, max_lon = 120.0\<rparr>,
     \<lparr>min_lat = 4.0, max_lat = 7.0, min_lon = 116.0, max_lon = 127.0\<rparr>,
     \<lparr>min_lat = - 9.5, max_lat = - 8.0, min_lon = 124.0, max_lon = 127.5\<rparr>,
     \<lparr>min_lat = - 11.0, max_lat = - 1.0, min_lon = 140.0, max_lon = 155.0\<rparr>]"

section \<open>The region validator\<close>

text \<open>The test both loops apply to one box:
  \<open>b['min_lat'] <= lat <= b['max_lat'] and b['min_lon'] <= lon <= b['max_lon']\<close>.\<close>

definition in_box :: "box \<Rightarrow> pyfloat \<Rightarrow> pyfloat \<Rightarrow> bool" where
  "in_box b lat lon =
    ((fle (Fin (min_lat b)) lat \<and> fle lat (Fin (max_lat b))) \<and>
     (fle (Fin (min_lon b)) lon \<and> fle lon (Fin (max_lon b))))"

text \<open>The loop of \<open>is_in_forbidden_area\<close>, returning at the first box that holds the point.\<close>

fun forbidden_loop :: "box list \<Rightarrow> pyfloat \<Rightarrow> pyfloat \<Rightarrow> bool" where
  "forbidden_loop [] lat lon = False"
| "forbidden_loop (area # areas) lat lon =
    (if in_box area lat lon then True else forbidden_loop areas lat lon)"

definition is_in_forbidden_area :: "pyfloat \<Rightarrow> pyfloat \<Rightarrow> bool" where
  "is_in_forbidden_area lat lon = forbidden_loop FORBIDDEN_AREAS lat lon"

text \<open>The loop over \<open>INDONESIA_STRICT_BOUNDS.items()\<close> at the end of
  \<open>validate_indonesia_strict\<close>.\<close>

fun bounds_loop :: "(string \<times> box) list \<Rightarrow> pyfloat \<Rightarrow> pyfloat \<Rightarrow> bool" where
  "bounds_loop [] lat lon = False"
| "bounds_loop ((region, bounds) # rest) lat lon =
    (if in_box bounds lat lon then True else bounds_loop rest lat lon)"

definition validate_indonesia_strict :: "pyfloat \<Rightarrow> pyfloat \<Rightarrow> bool" where
  "validate_indonesia_strict lat lon =
    (if isna lat \<or> isna lon then False
     else if \<not> (fle (Fin (- 90)) lat \<and> fle lat (Fin 90)) \<or>
             \<not> (fle (Fin (- 180)) lon \<and> fle lon (Fin 180)) then False
     else if is_in_forbidden_area lat lon then False
     else bounds_loop INDONESIA_STRICT_BOUNDS lat lon)"

section \<open>Tables\<close>

text \<open>
  A pandas table has a list of column names and a list of rows; a row gives the cell of
  each column (only the cells of the table's columns are meaningful). A cell is \<open>None\<close>,
  a float, or a string. A column whose cells are all floats stands for a column of a
  numeric dtype, any other column for an \<open>object\<close> column.
\<close>

datatype cell = Null | Flt pyfloat | Str string

type_synonym row = "string \<Rightarrow> cell"

record dataframe =
  columns :: "string list"
  rows :: "row list"

text \<open>\<open>pd.DataFrame()\<close>: no columns, no rows.\<close>

definition pd_DataFrame :: dataframe where
  "pd_DataFrame = \<lparr>columns = [], rows = []\<rparr>"

text \<open>The property \<open>df.empty\<close>: some axis has length 0.\<close>

definition df_empty :: "dataframe \<Rightarrow> bool" where
  "df_empty df = (columns df = [] \<or> rows df = [])"

definition len :: "dataframe \<Rightarrow> int" where
  "len df = int (length (rows df))"

text \<open>A missing cell: \<open>None\<close> or the float \<open>NaN\<close>.\<close>

fun cell_isna :: "cell \<Rightarrow> bool" where
  "cell_isna Null = True"
| "cell_isna (Flt x) = isna x"
| "cell_isna (Str s) = False"

fun is_Flt :: "cell \<Rightarrow> bool" where
  "is_Flt (Flt x) = True"
| "is_Flt _ = False"

text \<open>The float read from a cell of a numeric column.\<close>

fun the_float :: "cell \<Rightarrow> pyfloat" where
  "the_float (Flt x) = x"
| "the_float _ = NaN"

definition numeric_col :: "dataframe \<Rightarrow> string \<Rightarrow> bool" where
  "numeric_col df c = list_all (\<lambda>r. is_Flt (r c)) (rows df)"

text \<open>\<open>df.dropna(subset=cols)\<close>: the rows in which no cell of \<open>cols\<close> is missing.\<close>

definition dropna :: "string list \<Rightarrow> dataframe \<Rightarrow> dataframe" where
  "dropna cols df =
     df\<lparr>rows := filter (\<lambda>r. list_all (\<lambda>c. \<not> cell_isna (r c)) cols) (rows df)\<rparr>"

text \<open>
  \<open>pd.to_numeric(..., errors='coerce')\<close> on one cell. The library's reading of a
  string as a number is the parameter \<open>parse\<close>, which gives \<open>NaN\<close> for a string that
  is no number.
\<close>

fun to_numeric :: "(string \<Rightarrow> pyfloat) \<Rightarrow> cell \<Rightarrow> cell" where
  "to_numeric parse Null = Flt NaN"
| "to_numeric parse (Flt x) = Flt x"
| "to_numeric parse (Str s) = Flt (parse s)"

text \<open>\<open>df[c] = pd.to_numeric(df[c], errors='coerce')\<close>.\<close>

definition assign_numeric :: "(string \<Rightarrow> pyfloat) \<Rightarrow> string \<Rightarrow> dataframe \<Rightarrow> dataframe" where
  "assign_numeric parse c df =
     df\<lparr>rows := map (\<lambda>r. r(c := to_numeric parse (r c))) (rows df)\<rparr>"

section \<open>The coordinate cleaner\<close>

text \<open>
  The messages sent to the page (\<open>st.warning\<close>, \<open>st.error\<close>, \<open>st.success\<close>,
  \<open>st.info\<close>, \<open>st.write\<close>) are returned as a log, with the dataset name and the counts
  they print. The lines that print the minimum and maximum of a column and the five
  sample rows carry no count and are left out of the log.
\<close>

datatype msg =
    Warning_empty string
  | Error_columns string string string
  | Warning_after_dropna string
  | Warning_after_numeric string
  | Info_processing string int
  | Write_analysis string
  | Warning_clearly_wrong int
  | Error_neighbor int
  | Success_processed int int int
  | Info_filtered string int
  | Error_processing string

text \<open>
  Selecting an absent column raises \<open>KeyError\<close>; so does reading \<open>'min'\<close> from the
  \<open>describe()\<close> of a column that is not numeric.
\<close>

datatype error = KeyError string

definition clearly_wrong :: "dataframe \<Rightarrow> string \<Rightarrow> string \<Rightarrow> row list" where
  "clearly_wrong df lat_col lon_col =
     filter (\<lambda>r. fgt (fabs (the_float (r lat_col))) (Fin 90) \<or>
                 fgt (fabs (the_float (r lon_col))) (Fin 180) \<or>
                 feq (the_float (r lat_col)) (Fin 0) \<or>
                 feq (the_float (r lon_col)) (Fin 0)) (rows df)"

definition in_neighbor_countries :: "dataframe \<Rightarrow> string \<Rightarrow> string \<Rightarrow> row list" where
  "in_neighbor_countries df lat_col lon_col =
     filter (\<lambda>r. is_in_forbidden_area (the_float (r lat_col)) (the_float (r lon_col))) (rows df)"

definition valid_data :: "dataframe \<Rightarrow> string \<Rightarrow> string \<Rightarrow> dataframe" where
  "valid_data df lat_col lon_col =
     df\<lparr>rows := filter (\<lambda>r. validate_indonesia_strict (the_float (r lat_col))
                                 (the_float (r lon_col))) (rows df)\<rparr>"

definition detect_and_fix_coordinate_issues ::
  "dataframe \<Rightarrow> string \<Rightarrow> string \<Rightarrow> string \<Rightarrow> error + dataframe \<times> msg list" where
  "detect_and_fix_coordinate_issues df lat_col lon_col dataset_name =
    (if df_empty df then Inr (df, [])
     else if lat_col \<notin> set (columns df) then Inl (KeyError lat_col)
     else if lon_col \<notin> set (columns df) then Inl (KeyError lon_col)
     else if \<not> numeric_col df lat_col \<or> \<not> numeric_col df lon_col then Inl (KeyError ''min'')
     else
       let n_wrong = int (length (clearly_wrong df lat_col lon_col));
           msgs1 = (if n_wrong > 0 then [Warning_clearly_wrong n_wrong] else []);
           n_neighbor = int (length (in_neighbor_countries df lat_col lon_col));
           msgs2 = (if n_neighbor > 0 then [Error_neighbor n_neighbor] else []);
           valid = valid_data df lat_col lon_col;
           removed_count = len df - len valid;
           msgs3 = (if removed_count > 0
                   then [Success_processed (len df) (len valid) removed_count] else [])
       in Inr (valid, Write_analysis dataset_name # msgs1 @ msgs2 @ msgs3))"

definition clean_and_validate_coordinates_strict ::
  "(string \<Rightarrow> pyfloat) \<Rightarrow> dataframe \<Rightarrow> string \<Rightarrow> string \<Rightarrow> string
     \<Rightarrow> error + dataframe \<times> msg list" where
  "clean_and_validate_coordinates_strict parse df lat_col lon_col dataset_name =
    (if df_empty df then Inr (df, [Warning_empty dataset_name])
     else if lat_col \<notin> set (columns df) \<or> lon_col \<notin> set (columns df)
       then Inr (pd_DataFrame, [Error_columns dataset_name lat_col lon_col])
     else
       let df_clean = dropna [lat_col, lon_col] df in
       if df_empty df_clean then Inr (df_clean, [Warning_after_dropna dataset_name])
       else
         let df_clean = assign_numeric parse lat_col df_clean;
             df_clean = assign_numeric parse lon_col df_clean;
             df_clean = dropna [lat_col, lon_col] df_clean in
         if df_empty df_clean then Inr (df_clean, [Warning_after_numeric dataset_name])
         else
           (case detect_and_fix_coordinate_issues df_clean lat_col lon_col dataset_name of
              Inl e \<Rightarrow> Inl e
            | Inr (df_valid, msgs) \<Rightarrow>
                Inr (df_valid, Info_processing dataset_name (len df) # msgs)))"

text \<open>
  Two values the cleaner computes on the way: a row after the two conversions
  (latitude first, then longitude), and the table \<open>df_clean\<close> as it is handed to
  \<open>detect_and_fix_coordinate_issues\<close>, after the second \<open>dropna\<close>.
\<close>

definition numeric_row :: "(string \<Rightarrow> pyfloat) \<Rightarrow> string \<Rightarrow> string \<Rightarrow> row \<Rightarrow> row" where
  "numeric_row parse lat_col lon_col r =
     (let r1 = r(lat_col := to_numeric parse (r lat_col))
      in r1(lon_col := to_numeric parse (r1 lon_col)))"

definition converted :: "(string \<Rightarrow> pyfloat) \<Rightarrow> dataframe \<Rightarrow> string \<Rightarrow> string \<Rightarrow> dataframe" where
  "converted parse df lat_col lon_col =
     dropna [lat_col, lon_col]
       (assign_numeric parse lon_col
         (assign_numeric parse lat_col (dropna [lat_col, lon_col] df)))"

section \<open>Reconciliation against the matched names\<close>

text \<open>
  \<open>Series.str.upper()\<close> on one cell: a string is uppercased, any other cell becomes
  missing. The uppercasing itself is done by the library, which chooses it by the dtype of
  the Series: on an \<open>object\<close> column it is Python's \<open>str.upper\<close>, on a column of a string
  dtype it is the uppercasing of that dtype's backend. It is therefore a parameter, and
  each name column has one of its own.
\<close>

fun str_upper :: "(string \<Rightarrow> string) \<Rightarrow> cell \<Rightarrow> cell" where
  "str_upper upper (Str s) = Str (upper s)"
| "str_upper upper _ = Flt NaN"

text \<open>The cells of \<open>df['nama_restoran']\<close>.\<close>

definition name_column :: "dataframe \<Rightarrow> cell list" where
  "name_column df = map (\<lambda>r. r ''nama_restoran'') (rows df)"

text \<open>
  \<open>df['nama_restoran'].str\<close> raises \<open>KeyError\<close> when the table has no such column and
  \<open>AttributeError\<close> when the column has a numeric dtype. Both are caught by the
  \<open>except Exception\<close> around the block.
\<close>

definition str_accessor_ok :: "dataframe \<Rightarrow> bool" where
  "str_accessor_ok df =
     (''nama_restoran'' \<in> set (columns df) \<and>
      (name_column df = [] \<or> \<not> list_all is_Flt (name_column df)))"

text \<open>\<open>set(green_data['nama_restoran'].str.upper().dropna().unique())\<close>.\<close>

definition matched_names :: "(string \<Rightarrow> string) \<Rightarrow> dataframe \<Rightarrow> cell set" where
  "matched_names upper_matched green_data =
     set (filter (\<lambda>c. \<not> cell_isna c)
            (map (str_upper upper_matched) (name_column green_data)))"

text \<open>
  The block \<open># Filter out data yang sudah ada di matched\<close>. It occurs twice in
  \<open>load_and_process_data_strict\<close>, on \<open>orange_data\<close> (label \<open>ESB\<close>) and on
  \<open>blue_data\<close> (label \<open>Scraping\<close>), the same but for the label of its messages.
  \<open>upper_matched\<close> uppercases the name column of \<open>green_data\<close>, \<open>upper_data\<close> that of the
  table being filtered. When the block raises, the table is left as it was and an error
  is reported.
\<close>

definition filter_out_matched ::
  "string \<Rightarrow> (string \<Rightarrow> string) \<Rightarrow> (string \<Rightarrow> string) \<Rightarrow> dataframe \<Rightarrow> dataframe
     \<Rightarrow> dataframe \<times> msg list" where
  "filter_out_matched label upper_matched upper_data green_data data =
    (if \<not> df_empty green_data then
       if \<not> str_accessor_ok green_data \<or> \<not> str_accessor_ok data
       then (data, [Error_processing label])
       else
         let original_count = len data;
             names = matched_names upper_matched green_data;
             data' = data\<lparr>rows := filter (\<lambda>r. \<not> (str_upper upper_data (r ''nama_restoran'')
                                                  \<in> names)) (rows data)\<rparr>
         in (data', [Info_filtered label (original_count - len data')])
     else (data, []))"

text \<open>
  The block stands inside \<open>if not df_esb_clean.empty:\<close> (\<open>df_scraping_clean\<close> for the
  second one); the normalised table has the rows of the cleaned one, and is
  \<open>pd.DataFrame()\<close> when the cleaned one is empty.
\<close>

definition reconcile_side ::
  "string \<Rightarrow> (string \<Rightarrow> string) \<Rightarrow> (string \<Rightarrow> string) \<Rightarrow> dataframe \<Rightarrow> dataframe
     \<Rightarrow> dataframe \<times> msg list" where
  "reconcile_side label upper_matched upper_data green_data data =
    (if \<not> df_empty data
     then filter_out_matched label upper_matched upper_data green_data data
     else (data, []))"

text \<open>
  The reconciliation part of \<open>load_and_process_data_strict\<close>: both blocks, applied to the
  normalised tables, with \<open>green_data\<close> passed on as it is. The three uppercasings are
  those of the name columns of \<open>green_data\<close>, \<open>orange_data\<close> and \<open>blue_data\<close>.
\<close>

definition reconcile ::
  "(string \<Rightarrow> string) \<Rightarrow> (string \<Rightarrow> string) \<Rightarrow> (string \<Rightarrow> string)
     \<Rightarrow> dataframe \<Rightarrow> dataframe \<Rightarrow> dataframe
     \<Rightarrow> (dataframe \<times> dataframe \<times> dataframe) \<times> msg list" where
  "reconcile upper_green upper_orange upper_blue green_data orange_data blue_data =
     (let (orange_data', msgs1) =
            reconcile_side ''ESB'' upper_green upper_orange green_data orange_data;
          (blue_data', msgs2) =
            reconcile_side ''Scraping'' upper_green upper_blue green_data blue_data
      in ((green_data, orange_data', blue_data'), msgs1 @ msgs2))"

subsection \<open>Notions used to state the properties\<close>

text \<open>The uppercased names present in a table: those of the string cells of its name column.\<close>

definition normalized_names :: "(string \<Rightarrow> string) \<Rightarrow> dataframe \<Rightarrow> string set" where
  "normalized_names upper df =
     (if ''nama_restoran'' \<in> set (columns df)
      then set (concat (map (\<lambda>c. case c of Str s \<Rightarrow> [upper s] | _ \<Rightarrow> []) (name_column df)))
      else {})"

text \<open>
  The number of records of \<open>data\<close> whose name, uppercased by \<open>upper_data\<close>, is a name of
  \<open>green_data\<close> uppercased by \<open>upper_matched\<close>. With one uppercasing for both it is the
  number of records whose uppercased name is among the uppercased matched names.
\<close>

definition count_matched ::
  "(string \<Rightarrow> string) \<Rightarrow> (string \<Rightarrow> string) \<Rightarrow> dataframe \<Rightarrow> dataframe \<Rightarrow> int" where
  "count_matched upper_matched upper_data green_data data =
     (if ''nama_restoran'' \<in> set (columns data)
      then int (length (filter (\<lambda>r. case r ''nama_restoran'' of
                                  Str s \<Rightarrow> upper_data s
                                             \<in> normalized_names upper_matched green_data
                                | _ \<Rightarrow> False) (rows data)))
      else 0)"

text \<open>The count a block prints: \<open>original_count - len(data)\<close>.\<close>

definition removed_count :: "dataframe \<Rightarrow> dataframe \<Rightarrow> int" where
  "removed_count before after = len before - len after"

text \<open>Two uppercasings. The first maps character to character: the letters a to z are
  replaced and every other character is kept.\<close>

definition upper_char :: "char \<Rightarrow> char" where
  "upper_char c =
     (case map_of (zip ''abcdefghijklmnopqrstuvwxyz'' ''ABCDEFGHIJKLMNOPQRSTUVWXYZ'') c of
        Some d \<Rightarrow> d
      | None \<Rightarrow> c)"

definition ascii_upper :: "string \<Rightarrow> string" where
  "ascii_upper s = map upper_char s"

text \<open>The second does as Python's \<open>str.upper\<close> does on the sharp s (the bytes C3 9F in
  UTF-8), which it writes as SS; on the other characters it is the first.\<close>

fun upper_ss :: "string \<Rightarrow> string" where
  "upper_ss [] = []"
| "upper_ss [c] = [upper_char c]"
| "upper_ss (c # d # cs) =
     (if c = CHR 0xC3 \<and> d = CHR 0x9F then ''SS'' @ upper_ss cs
      else upper_char c # upper_ss (d # cs))"

subsection \<open>Example tables\<close>

definition named_row :: "cell \<Rightarrow> real \<Rightarrow> real \<Rightarrow> row" where
  "named_row name la lo =
     (\<lambda>c. Null)(''nama_restoran'' := name, ''lat'' := Flt (Fin la), ''lon'' := Flt (Fin lo))"

definition canonical_columns :: "string list" where
  "canonical_columns = [''nama_restoran'', ''lat'', ''lon'']"

definition example_green :: dataframe where
  "example_green =
     \<lparr>columns = canonical_columns,
      rows = [named_row (Str ''WARUNG PADANG JAYA'') (- 6.2) 106.8]\<rparr>"

definition example_orange :: dataframe where
  "example_orange =
     \<lparr>columns = canonical_columns,
      rows = [named_row (Str ''warung padang jaya'') (- 6.21) 106.81,
              named_row Null (- 7.0) 110.0]\<rparr>"

definition example_orange_filtered :: dataframe where
  "example_orange_filtered =
     \<lparr>columns = canonical_columns, rows = [named_row Null (- 7.0) 110.0]\<rparr>"

definition example_blue :: dataframe where
  "example_blue =
     \<lparr>columns = canonical_columns,
      rows = [named_row (Str ''Sate Khas Senayan'') (- 6.3) 106.9]\<rparr>"

text \<open>A table of one record with a given name; a matched table and an ESB table of one
  record each, with one and the same name, which has a sharp s in it: \<open>1.0 - stra\<close>, the
  sharp s, \<open>e\<close>.\<close>

definition strasse_name :: string where
  "strasse_name = ''1.0 - stra'' @ [CHR 0xC3, CHR 0x9F] @ ''e''"

definition single_named :: "string \<Rightarrow> real \<Rightarrow> real \<Rightarrow> dataframe" where
  "single_named s la lo = \<lparr>columns = canonical_columns, rows = [named_row (Str s) la lo]\<rparr>"

definition strasse_green :: dataframe where
  "strasse_green = single_named strasse_name (- 6.2) 106.8"

definition strasse_orange :: dataframe where
  "strasse_orange = single_named strasse_name (- 6.21) 106.81"

text \<open>A table with one row on the equator, in the Sumatera box.\<close>

definition coord_row :: "real \<Rightarrow> real \<Rightarrow> row" where
  "coord_row la lo = (\<lambda>c. Null)(''latitude'' := Flt (Fin la), ''longitude'' := Flt (Fin lo))"

definition equator_df :: dataframe where
  "equator_df = \<lparr>columns = [''latitude'', ''longitude''], rows = [coord_row 0.0 101.0]\<rparr>"

definition no_parse :: "string \<Rightarrow> pyfloat" where
  "no_parse s = NaN"


section \<open>Properties of the region validator\<close>

lemma forbidden_loop_iff:
  "forbidden_loop areas lat lon \<longleftrightarrow> (\<exists>area \<in> set areas. in_box area lat lon)"
  by (induction areas) auto

lemma bounds_loop_iff:
  "bounds_loop bs lat lon \<longleftrightarrow> (\<exists>b \<in> snd ` set bs. in_box b lat lon)"
  by (induction bs) auto

lemma in_box_Fin:
  "in_box b lat lon \<Longrightarrow> \<exists>x y. lat = Fin x \<and> lon = Fin y"
  by (cases lat; cases lon) (auto simp: in_box_def)

lemma in_box_Fin_iff:
  "in_box b (Fin x) (Fin y) \<longleftrightarrow>
     min_lat b \<le> x \<and> x \<le> max_lat b \<and> min_lon b \<le> y \<and> y \<le> max_lon b"
  by (auto simp: in_box_def)

lemma validate_lon_zero: "\<not> validate_indonesia_strict lat (Fin 0)"
  by (auto simp: validate_indonesia_strict_def bounds_loop_iff INDONESIA_STRICT_BOUNDS_def
      in_box_def)

lemma validate_jakarta: "validate_indonesia_strict (Fin (- 6.2)) (Fin 106.8)"
  by (simp add: validate_indonesia_strict_def is_in_forbidden_area_def FORBIDDEN_AREAS_def
      INDONESIA_STRICT_BOUNDS_def in_box_def isna_def)

text \<open>
  Claim C1. The validator accepts a pair of coordinates if and only if neither is NaN,
  the latitude is between -90 and 90 and the longitude between -180 and 180, no box of
  \<open>FORBIDDEN_AREAS\<close> holds the point and some box of \<open>INDONESIA_STRICT_BOUNDS\<close> holds it.
  A box holds a finite point when the latitude and the longitude lie between its bounds,
  all four bounds included. A point in no box of either list is rejected.
\<close>

theorem validate_accepts_iff:
  "(validate_indonesia_strict lat lon \<longleftrightarrow>
      lat \<noteq> NaN \<and> lon \<noteq> NaN \<and>
      (fle (Fin (- 90)) lat \<and> fle lat (Fin 90)) \<and>
      (fle (Fin (- 180)) lon \<and> fle lon (Fin 180)) \<and>
      (\<forall>b \<in> set FORBIDDEN_AREAS. \<not> in_box b lat lon) \<and>
      (\<exists>b \<in> snd ` set INDONESIA_STRICT_BOUNDS. in_box b lat lon))
   \<and> (in_box b (Fin x) (Fin y) \<longleftrightarrow>
        min_lat b \<le> x \<and> x \<le> max_lat b \<and> min_lon b \<le> y \<and> y \<le> max_lon b)
   \<and> ((\<forall>b \<in> snd ` set INDONESIA_STRICT_BOUNDS. \<not> in_box b lat lon) \<and>
       (\<forall>b \<in> set FORBIDDEN_AREAS. \<not> in_box b lat lon)
        \<longrightarrow> \<not> validate_indonesia_strict lat lon)"
  unfolding validate_indonesia_strict_def is_in_forbidden_area_def
    forbidden_loop_iff bounds_loop_iff isna_def in_box_Fin_iff
  by auto

theorem validate_accepts_iff_witness:
  "validate_indonesia_strict (Fin (- 6.2)) (Fin 106.8) \<and>
   \<not> validate_indonesia_strict (Fin 20) (Fin 50) \<and>
   \<not> validate_indonesia_strict NaN (Fin 106.8)"
  using validate_accepts_iff [of "Fin (- 6.2)" "Fin 106.8"]
    validate_accepts_iff [of "Fin 20" "Fin 50"]
    validate_accepts_iff [of NaN "Fin 106.8"]
  by (simp add: FORBIDDEN_AREAS_def INDONESIA_STRICT_BOUNDS_def in_box_def)

text \<open>
  Claim C2. A point held by a box of \<open>FORBIDDEN_AREAS\<close> is rejected, whatever boxes of
  \<open>INDONESIA_STRICT_BOUNDS\<close> hold it. The point (1.35, 103.8) lies in the Singapore box
  (the second forbidden area) and in the Sumatera box, and is rejected.
\<close>

theorem exclusion_dominance:
  "(area \<in> set FORBIDDEN_AREAS \<and> in_box area lat lon
      \<longrightarrow> \<not> validate_indonesia_strict lat lon)
   \<and> in_box (FORBIDDEN_AREAS ! 1) (Fin 1.35) (Fin 103.8)
   \<and> map_of INDONESIA_STRICT_BOUNDS ''sumatera'' = Some (snd (INDONESIA_STRICT_BOUNDS ! 0))
   \<and> in_box (snd (INDONESIA_STRICT_BOUNDS ! 0)) (Fin 1.35) (Fin 103.8)
   \<and> \<not> validate_indonesia_strict (Fin 1.35) (Fin 103.8)"
proof -
  have general: "\<not> validate_indonesia_strict la lo"
    if "area \<in> set FORBIDDEN_AREAS" "in_box area la lo" for area la lo
    using that
    by (auto simp: validate_indonesia_strict_def is_in_forbidden_area_def forbidden_loop_iff)
  have singapore: "in_box (FORBIDDEN_AREAS ! 1) (Fin 1.35) (Fin 103.8)"
    by (simp add: FORBIDDEN_AREAS_def in_box_def)
  have "FORBIDDEN_AREAS ! 1 \<in> set FORBIDDEN_AREAS"
    by (simp add: FORBIDDEN_AREAS_def)
  from general [OF this singapore]
  have rejected: "\<not> validate_indonesia_strict (Fin 1.35) (Fin 103.8)" .
  have sumatera: "map_of INDONESIA_STRICT_BOUNDS ''sumatera'' = Some (snd (INDONESIA_STRICT_BOUNDS ! 0))"
    "in_box (snd (INDONESIA_STRICT_BOUNDS ! 0)) (Fin 1.35) (Fin 103.8)"
    by (simp_all add: INDONESIA_STRICT_BOUNDS_def in_box_def)
  from general singapore sumatera rejected show ?thesis by blast
qed

theorem exclusion_dominance_witness:
  "FORBIDDEN_AREAS ! 0 \<in> set FORBIDDEN_AREAS \<and>
   in_box (FORBIDDEN_AREAS ! 0) (Fin 5) (Fin 100) \<and>
   in_box (snd (INDONESIA_STRICT_BOUNDS ! 0)) (Fin 5) (Fin 100) \<and>
   \<not> validate_indonesia_strict (Fin 5) (Fin 100)"
proof -
  have h: "FORBIDDEN_AREAS ! 0 \<in> set FORBIDDEN_AREAS \<and>
      in_box (FORBIDDEN_AREAS ! 0) (Fin 5) (Fin 100)"
    by (simp add: FORBIDDEN_AREAS_def in_box_def)
  have s: "in_box (snd (INDONESIA_STRICT_BOUNDS ! 0)) (Fin 5) (Fin 100)"
    by (simp add: INDONESIA_STRICT_BOUNDS_def in_box_def)
  from exclusion_dominance [of "FORBIDDEN_AREAS ! 0" "Fin 5" "Fin 100"] h
  have "\<not> validate_indonesia_strict (Fin 5) (Fin 100)" by blast
  with h s show ?thesis by blast
qed

text \<open>
  Claim C10. Every accepted point is finite, with latitude in [-9.5, 5.5] and longitude
  in [95.0, 125.0]; these four numbers are the least and greatest bounds of the five
  boxes of \<open>INDONESIA_STRICT_BOUNDS\<close>. Every point with longitude above 125.0 is rejected.
\<close>

theorem accepted_region_envelope:
  "(validate_indonesia_strict lat lon \<longrightarrow>
      (\<exists>x y. lat = Fin x \<and> lon = Fin y \<and>
             - 9.5 \<le> x \<and> x \<le> 5.5 \<and> 95.0 \<le> y \<and> y \<le> 125.0))
   \<and> (fgt lon (Fin 125.0) \<longrightarrow> \<not> validate_indonesia_strict lat lon)
   \<and> Min (set (map (min_lat \<circ> snd) INDONESIA_STRICT_BOUNDS)) = - 9.5
   \<and> Max (set (map (max_lat \<circ> snd) INDONESIA_STRICT_BOUNDS)) = 5.5
   \<and> Min (set (map (min_lon \<circ> snd) INDONESIA_STRICT_BOUNDS)) = 95.0
   \<and> Max (set (map (max_lon \<circ> snd) INDONESIA_STRICT_BOUNDS)) = 125.0"
proof -
  have a: "\<exists>x y. lat = Fin x \<and> lon = Fin y \<and>
             - 9.5 \<le> x \<and> x \<le> 5.5 \<and> 95.0 \<le> y \<and> y \<le> 125.0"
    if "validate_indonesia_strict lat lon"
  proof -
    from that obtain b where b: "b \<in> snd ` set INDONESIA_STRICT_BOUNDS" "in_box b lat lon"
      by (auto simp: validate_indonesia_strict_def bounds_loop_iff split: if_splits)
    from in_box_Fin [OF b(2)] obtain x y where xy: "lat = Fin x" "lon = Fin y" by blast
    from b xy show ?thesis
      by (auto simp: INDONESIA_STRICT_BOUNDS_def in_box_Fin_iff)
  qed
  have b: "\<not> validate_indonesia_strict lat lon" if "fgt lon (Fin 125.0)"
  proof
    assume "validate_indonesia_strict lat lon"
    from a [OF this] that show False by auto
  qed
  have c: "Min (set (map (min_lat \<circ> snd) INDONESIA_STRICT_BOUNDS)) = - 9.5"
    "Max (set (map (max_lat \<circ> snd) INDONESIA_STRICT_BOUNDS)) = 5.5"
    "Min (set (map (min_lon \<circ> snd) INDONESIA_STRICT_BOUNDS)) = 95.0"
    "Max (set (map (max_lon \<circ> snd) INDONESIA_STRICT_BOUNDS)) = 125.0"
    by (simp_all add: INDONESIA_STRICT_BOUNDS_def)
  from a b c show ?thesis by blast
qed

theorem accepted_region_envelope_witness:
  "validate_indonesia_strict (Fin (- 6.2)) (Fin 106.8) \<and>
   (\<exists>x y. Fin (- 6.2) = Fin x \<and> Fin 106.8 = Fin y \<and>
          - 9.5 \<le> x \<and> x \<le> 5.5 \<and> 95.0 \<le> y \<and> y \<le> (125.0 :: real)) \<and>
   fgt (Fin 130) (Fin 125.0) \<and> \<not> validate_indonesia_strict (Fin (- 2)) (Fin 130)"
proof -
  have g: "fgt (Fin 130) (Fin 125.0)" by simp
  from accepted_region_envelope [of "Fin (- 6.2)" "Fin 106.8"] validate_jakarta
  have 1: "\<exists>x y. Fin (- 6.2) = Fin x \<and> Fin 106.8 = Fin y \<and>
          - 9.5 \<le> x \<and> x \<le> 5.5 \<and> 95.0 \<le> y \<and> y \<le> (125.0 :: real)"
    by blast
  from accepted_region_envelope [of "Fin (- 2)" "Fin 130"] g
  have 2: "\<not> validate_indonesia_strict (Fin (- 2)) (Fin 130)" by blast
  from validate_jakarta 1 g 2 show ?thesis by blast
qed

section \<open>Properties of the coordinate cleaner\<close>

lemma in_clearly_wrong:
  "r \<in> set (clearly_wrong df lat_col lon_col) \<longleftrightarrow>
     r \<in> set (rows df) \<and>
     (fgt (fabs (the_float (r lat_col))) (Fin 90) \<or>
      fgt (fabs (the_float (r lon_col))) (Fin 180) \<or>
      feq (the_float (r lat_col)) (Fin 0) \<or> feq (the_float (r lon_col)) (Fin 0))"
  by (auto simp: clearly_wrong_def)

lemma feq_zero: "feq x (Fin 0) \<Longrightarrow> x = Fin 0"
  by (cases x) auto

lemma equator_detect:
  "detect_and_fix_coordinate_issues equator_df ''latitude'' ''longitude'' ''ESB Data''
     = Inr (equator_df, [Write_analysis ''ESB Data'', Warning_clearly_wrong 1])"
  by (simp add: detect_and_fix_coordinate_issues_def equator_df_def coord_row_def df_empty_def
      numeric_col_def clearly_wrong_def in_neighbor_countries_def valid_data_def len_def Let_def
      validate_indonesia_strict_def is_in_forbidden_area_def FORBIDDEN_AREAS_def
      INDONESIA_STRICT_BOUNDS_def in_box_def isna_def)

lemma equator_clean:
  "clean_and_validate_coordinates_strict no_parse equator_df ''latitude'' ''longitude''
     ''ESB Data''
     = Inr (equator_df, [Info_processing ''ESB Data'' 1, Write_analysis ''ESB Data'',
                         Warning_clearly_wrong 1])"
  by (simp add: clean_and_validate_coordinates_strict_def dropna_def assign_numeric_def
      detect_and_fix_coordinate_issues_def equator_df_def coord_row_def df_empty_def
      numeric_col_def clearly_wrong_def in_neighbor_countries_def valid_data_def len_def Let_def
      validate_indonesia_strict_def is_in_forbidden_area_def FORBIDDEN_AREAS_def
      INDONESIA_STRICT_BOUNDS_def in_box_def isna_def)

lemma validate_equator: "validate_indonesia_strict (Fin 0) (Fin 101)"
  by (simp add: validate_indonesia_strict_def is_in_forbidden_area_def FORBIDDEN_AREAS_def
      INDONESIA_STRICT_BOUNDS_def in_box_def isna_def)

text \<open>
  Claim C3, as stated, fails: a row with latitude exactly 0 is counted as clearly wrong
  but not removed on that ground. The table with the single row (0.0, 101.0) comes back
  from \<open>detect_and_fix_coordinate_issues\<close>, and from the whole cleaner, with that row in
  it: the validator is applied to the row and accepts it.
\<close>

theorem zero_latitude_row_retained:
  "rows equator_df = [coord_row 0.0 101.0]
   \<and> feq (the_float (coord_row 0.0 101.0 ''latitude'')) (Fin 0)
   \<and> validate_indonesia_strict (the_float (coord_row 0.0 101.0 ''latitude''))
        (the_float (coord_row 0.0 101.0 ''longitude''))
   \<and> detect_and_fix_coordinate_issues equator_df ''latitude'' ''longitude'' ''ESB Data''
       = Inr (equator_df, [Write_analysis ''ESB Data'', Warning_clearly_wrong 1])
   \<and> clean_and_validate_coordinates_strict no_parse equator_df ''latitude'' ''longitude''
       ''ESB Data''
       = Inr (equator_df, [Info_processing ''ESB Data'' 1, Write_analysis ''ESB Data'',
                           Warning_clearly_wrong 1])"
proof -
  have "rows equator_df = [coord_row 0.0 101.0]"
    by (simp add: equator_df_def)
  moreover have "feq (the_float (coord_row 0.0 101.0 ''latitude'')) (Fin 0)"
    by (simp add: coord_row_def)
  moreover have "validate_indonesia_strict (the_float (coord_row 0.0 101.0 ''latitude''))
        (the_float (coord_row 0.0 101.0 ''longitude''))"
    using validate_equator by (simp add: coord_row_def)
  ultimately show ?thesis using equator_detect equator_clean by blast
qed

lemma numeric_assign_self: "numeric_col (assign_numeric parse c df) c"
proof -
  have "is_Flt (to_numeric parse x)" for x
    by (cases x) auto
  then show ?thesis
    by (simp add: numeric_col_def assign_numeric_def list_all_iff)
qed

lemma numeric_assign_other:
  assumes "numeric_col df c'"
  shows "numeric_col (assign_numeric parse c df) c'"
proof -
  have "is_Flt (to_numeric parse x)" for x
    by (cases x) auto
  with assms show ?thesis
    by (simp add: numeric_col_def assign_numeric_def list_all_iff)
qed

lemma numeric_dropna: "numeric_col df c \<Longrightarrow> numeric_col (dropna cs df) c"
  by (auto simp: numeric_col_def dropna_def list_all_iff)

lemma columns_dropna: "columns (dropna cs df) = columns df"
  by (simp add: dropna_def)

lemma columns_assign_numeric: "columns (assign_numeric parse c df) = columns df"
  by (simp add: assign_numeric_def)

lemma to_numeric_is_Flt: "is_Flt (to_numeric parse x)"
  by (cases x) auto

lemma to_numeric_idem: "to_numeric parse (to_numeric parse x) = to_numeric parse x"
  by (cases x) auto

lemma numeric_row_lat:
  "numeric_row parse lat_col lon_col r lat_col = to_numeric parse (r lat_col)"
  by (simp add: numeric_row_def Let_def to_numeric_idem)

lemma numeric_row_lon:
  "numeric_row parse lat_col lon_col r lon_col = to_numeric parse (r lon_col)"
  by (simp add: numeric_row_def Let_def to_numeric_idem)

lemma numeric_row_same:
  assumes "r lat_col = Flt la" and "r lon_col = Flt lo"
  shows "numeric_row parse lat_col lon_col r = r"
  using assms by (auto simp: numeric_row_def Let_def fun_eq_iff)

lemma rows_converted:
  "rows (converted parse df lat_col lon_col) =
     filter (\<lambda>x. \<not> cell_isna (x lat_col) \<and> \<not> cell_isna (x lon_col))
       (map (numeric_row parse lat_col lon_col)
         (filter (\<lambda>x. \<not> cell_isna (x lat_col) \<and> \<not> cell_isna (x lon_col)) (rows df)))"
proof -
  have "numeric_row parse lat_col lon_col =
      (\<lambda>x. (x(lat_col := to_numeric parse (x lat_col)))
             (lon_col := to_numeric parse ((x(lat_col := to_numeric parse (x lat_col))) lon_col)))"
    by (rule ext) (simp add: numeric_row_def Let_def)
  then show ?thesis
    by (simp add: converted_def dropna_def assign_numeric_def comp_def)
qed

lemma columns_converted: "columns (converted parse df lat_col lon_col) = columns df"
  by (simp add: converted_def columns_dropna columns_assign_numeric)

lemma numeric_converted:
  "numeric_col (converted parse df lat_col lon_col) lat_col"
  "numeric_col (converted parse df lat_col lon_col) lon_col"
  unfolding converted_def
  by (intro numeric_dropna numeric_assign_other numeric_assign_self)+

text \<open>What \<open>detect_and_fix_coordinate_issues\<close> returns on a table that is not empty and
  whose two columns are present and numeric: the rows the validator accepts, and a log that
  holds the warning with the number of clearly wrong rows when there is such a row.\<close>

lemma detect_numeric:
  assumes "\<not> df_empty d" "lat_col \<in> set (columns d)" "lon_col \<in> set (columns d)"
    "numeric_col d lat_col" "numeric_col d lon_col"
  shows "\<exists>m. detect_and_fix_coordinate_issues d lat_col lon_col dataset_name =
           Inr (valid_data d lat_col lon_col, m)
         \<and> (clearly_wrong d lat_col lon_col \<noteq> [] \<longrightarrow>
              Warning_clearly_wrong (int (length (clearly_wrong d lat_col lon_col))) \<in> set m)"
  using assms by (simp add: detect_and_fix_coordinate_issues_def Let_def)

text \<open>The cleaner on a table some row of which reaches the detection: the result is that
  of \<open>detect_and_fix_coordinate_issues\<close> on the converted table, after the message that
  gives the number of records.\<close>

lemma clean_converted:
  assumes "lat_col \<in> set (columns df)" "lon_col \<in> set (columns df)"
    and "rows (converted parse df lat_col lon_col) \<noteq> []"
  shows "clean_and_validate_coordinates_strict parse df lat_col lon_col dataset_name =
     (case detect_and_fix_coordinate_issues (converted parse df lat_col lon_col)
             lat_col lon_col dataset_name of
        Inl e \<Rightarrow> Inl e
      | Inr (df_valid, msgs) \<Rightarrow>
          Inr (df_valid, Info_processing dataset_name (len df) # msgs))"
proof -
  from assms(3) have 1: "rows (dropna [lat_col, lon_col] df) \<noteq> []"
    by (auto simp: converted_def dropna_def assign_numeric_def)
  then have 2: "rows df \<noteq> []"
    by (auto simp: dropna_def)
  from assms(1) have 3: "columns df \<noteq> []" by auto
  from 1 2 3 assms show ?thesis
    by (simp add: clean_and_validate_coordinates_strict_def Let_def df_empty_def
        columns_dropna columns_assign_numeric converted_def)
qed

text \<open>
  Claim C3, amended. Take an input row with both coordinates present and numeric, whose
  latitude or longitude is exactly 0. The cleaner prints the warning that counts the
  clearly wrong rows, and the row is one of those it counts; it is not removed on that
  ground, for the validator is applied to every row that reaches the detection, and the
  row is in the output exactly when the validator accepts it. A row whose longitude is
  exactly 0 is never in the output, since the validator rejects every point of
  longitude 0, the point (0.0, 0.0) among them. A row whose two cells are floats passes
  through the conversion unchanged.
\<close>

theorem zero_rows_flagged_and_validated:
  assumes "clean_and_validate_coordinates_strict parse df lat_col lon_col dataset_name
             = Inr (df', msgs)"
    and "lat_col \<in> set (columns df)" and "lon_col \<in> set (columns df)"
    and "r \<in> set (rows df)"
    and "\<not> cell_isna (r lat_col)" and "\<not> cell_isna (r lon_col)"
    and "to_numeric parse (r lat_col) = Flt la" and "to_numeric parse (r lon_col) = Flt lo"
    and "la \<noteq> NaN" and "lo \<noteq> NaN"
    and "feq la (Fin 0) \<or> feq lo (Fin 0)"
  shows "Warning_clearly_wrong
           (int (length (clearly_wrong (converted parse df lat_col lon_col) lat_col lon_col)))
           \<in> set msgs
     \<and> numeric_row parse lat_col lon_col r
         \<in> set (clearly_wrong (converted parse df lat_col lon_col) lat_col lon_col)
     \<and> rows df' = filter (\<lambda>x. validate_indonesia_strict (the_float (x lat_col))
                                  (the_float (x lon_col)))
                     (rows (converted parse df lat_col lon_col))
     \<and> (numeric_row parse lat_col lon_col r \<in> set (rows df')
          \<longleftrightarrow> validate_indonesia_strict la lo)
     \<and> (feq lo (Fin 0) \<longrightarrow> numeric_row parse lat_col lon_col r \<notin> set (rows df'))
     \<and> \<not> validate_indonesia_strict (Fin 0) (Fin 0)
     \<and> (r lat_col = Flt la \<and> r lon_col = Flt lo
          \<longrightarrow> numeric_row parse lat_col lon_col r = r)"
proof -
  let ?c = "converted parse df lat_col lon_col"
  let ?r = "numeric_row parse lat_col lon_col r"
  have lat: "?r lat_col = Flt la" and lon: "?r lon_col = Flt lo"
    using assms(7,8) by (simp_all add: numeric_row_lat numeric_row_lon)
  have in_c: "?r \<in> set (rows ?c)"
    using assms(4,5,6,9,10) lat lon by (simp add: rows_converted isna_def)
  then have ne: "rows ?c \<noteq> []" by auto
  with assms(2) have "\<not> df_empty ?c"
    by (auto simp: df_empty_def columns_converted)
  from detect_numeric [OF this, of lat_col lon_col dataset_name] assms(2,3)
  obtain m where det: "detect_and_fix_coordinate_issues ?c lat_col lon_col dataset_name =
           Inr (valid_data ?c lat_col lon_col, m)"
    and warn: "clearly_wrong ?c lat_col lon_col \<noteq> [] \<Longrightarrow>
              Warning_clearly_wrong (int (length (clearly_wrong ?c lat_col lon_col))) \<in> set m"
    by (auto simp: columns_converted numeric_converted)
  have wrong: "?r \<in> set (clearly_wrong ?c lat_col lon_col)"
    using in_c assms(11) by (simp add: in_clearly_wrong lat lon)
  then have "clearly_wrong ?c lat_col lon_col \<noteq> []" by auto
  from warn [OF this]
  have w: "Warning_clearly_wrong (int (length (clearly_wrong ?c lat_col lon_col))) \<in> set m" .
  have "clean_and_validate_coordinates_strict parse df lat_col lon_col dataset_name =
      Inr (valid_data ?c lat_col lon_col, Info_processing dataset_name (len df) # m)"
    by (simp add: clean_converted [OF assms(2,3) ne] det)
  with assms(1) have out: "df' = valid_data ?c lat_col lon_col"
    and m: "msgs = Info_processing dataset_name (len df) # m"
    by simp_all
  have 1: "Warning_clearly_wrong (int (length (clearly_wrong ?c lat_col lon_col))) \<in> set msgs"
    using w by (simp add: m)
  have 3: "rows df' = filter (\<lambda>x. validate_indonesia_strict (the_float (x lat_col))
                                  (the_float (x lon_col))) (rows ?c)"
    by (simp add: out valid_data_def)
  have 4: "?r \<in> set (rows df') \<longleftrightarrow> validate_indonesia_strict la lo"
    using in_c by (simp add: 3 lat lon)
  have 5: "?r \<notin> set (rows df')" if "feq lo (Fin 0)"
    using 4 feq_zero [OF that] by (simp add: validate_lon_zero)
  have 6: "?r = r" if "r lat_col = Flt la \<and> r lon_col = Flt lo"
    using that numeric_row_same by blast
  from 1 wrong 3 4 5 6 validate_lon_zero [of "Fin 0"] show ?thesis by blast
qed

theorem zero_rows_flagged_and_validated_witness:
  "clean_and_validate_coordinates_strict no_parse equator_df ''latitude'' ''longitude''
     ''ESB Data''
     = Inr (equator_df, [Info_processing ''ESB Data'' 1, Write_analysis ''ESB Data'',
                         Warning_clearly_wrong 1])
   \<and> coord_row 0.0 101.0 \<in> set (rows equator_df)
   \<and> to_numeric no_parse (coord_row 0.0 101.0 ''latitude'') = Flt (Fin 0)
   \<and> to_numeric no_parse (coord_row 0.0 101.0 ''longitude'') = Flt (Fin 101)
   \<and> feq (Fin 0) (Fin 0)
   \<and> Warning_clearly_wrong
       (int (length (clearly_wrong (converted no_parse equator_df ''latitude'' ''longitude'')
                       ''latitude'' ''longitude'')))
       \<in> set [Info_processing ''ESB Data'' 1, Write_analysis ''ESB Data'',
               Warning_clearly_wrong 1]
   \<and> numeric_row no_parse ''latitude'' ''longitude'' (coord_row 0.0 101.0)
       \<in> set (rows equator_df)"
proof -
  have c: "''latitude'' \<in> set (columns equator_df)" "''longitude'' \<in> set (columns equator_df)"
    by (simp_all add: equator_df_def)
  have r: "coord_row 0.0 101.0 \<in> set (rows equator_df)"
    by (simp add: equator_df_def)
  have p: "\<not> cell_isna (coord_row 0.0 101.0 ''latitude'')"
    "\<not> cell_isna (coord_row 0.0 101.0 ''longitude'')"
    by (simp_all add: coord_row_def isna_def)
  have n: "to_numeric no_parse (coord_row 0.0 101.0 ''latitude'') = Flt (Fin 0)"
    "to_numeric no_parse (coord_row 0.0 101.0 ''longitude'') = Flt (Fin 101)"
    by (simp_all add: coord_row_def)
  have f: "Fin 0 \<noteq> NaN" "Fin 101 \<noteq> NaN" "feq (Fin 0) (Fin 0)"
    by simp_all
  then have z: "feq (Fin 0) (Fin 0) \<or> feq (Fin 101) (Fin 0)" by blast
  from zero_rows_flagged_and_validated [OF equator_clean c r p n f(1,2) z] validate_equator
  have "Warning_clearly_wrong
       (int (length (clearly_wrong (converted no_parse equator_df ''latitude'' ''longitude'')
                       ''latitude'' ''longitude'')))
       \<in> set [Info_processing ''ESB Data'' 1, Write_analysis ''ESB Data'',
               Warning_clearly_wrong 1]"
    "numeric_row no_parse ''latitude'' ''longitude'' (coord_row 0.0 101.0)
       \<in> set (rows equator_df)"
    by blast+
  with equator_clean r n f(3) show ?thesis by blast
qed

text \<open>
  Claim C8. When the latitude or the longitude column is absent from the table, the cleaner
  returns a result, not an exception, and the result is empty: the table itself when it
  was empty already, \<open>pd.DataFrame()\<close> with the error message otherwise.
\<close>

theorem missing_column_empty_result:
  assumes "lat_col \<notin> set (columns df) \<or> lon_col \<notin> set (columns df)"
  shows "\<exists>res msgs.
           clean_and_validate_coordinates_strict parse df lat_col lon_col dataset_name
             = Inr (res, msgs)
           \<and> df_empty res
           \<and> (\<not> df_empty df \<longrightarrow>
                res = pd_DataFrame \<and> msgs = [Error_columns dataset_name lat_col lon_col])"
  using assms
  by (auto simp: clean_and_validate_coordinates_strict_def df_empty_def pd_DataFrame_def)

theorem missing_column_empty_result_witness:
  "''lat'' \<notin> set (columns equator_df)
   \<and> \<not> df_empty equator_df
   \<and> clean_and_validate_coordinates_strict no_parse equator_df ''lat'' ''lon'' ''ESB Data''
       = Inr (pd_DataFrame, [Error_columns ''ESB Data'' ''lat'' ''lon''])"
proof -
  have l: "''lat'' \<notin> set (columns equator_df)"
    by (simp add: equator_df_def)
  then have h: "''lat'' \<notin> set (columns equator_df) \<or> ''lon'' \<notin> set (columns equator_df)" ..
  have e: "\<not> df_empty equator_df"
    by (simp add: equator_df_def df_empty_def)
  from missing_column_empty_result [OF h, of no_parse "''ESB Data''"] e
  have "clean_and_validate_coordinates_strict no_parse equator_df ''lat'' ''lon'' ''ESB Data''
       = Inr (pd_DataFrame, [Error_columns ''ESB Data'' ''lat'' ''lon''])"
    by auto
  with l e show ?thesis by blast
qed

section \<open>Properties of the reconciliation\<close>

lemma str_upper_eq_Str:
  "str_upper upper c = Str n \<longleftrightarrow> (\<exists>t. c = Str t \<and> n = upper t)"
  by (cases c) auto

lemma all_Flt_no_Str:
  "list_all is_Flt (name_column df) \<Longrightarrow> r \<in> set (rows df) \<Longrightarrow>
     r ''nama_restoran'' \<noteq> Str s"
proof
  assume a: "list_all is_Flt (name_column df)" "r \<in> set (rows df)"
    "r ''nama_restoran'' = Str s"
  from a(1,2) have "is_Flt (r ''nama_restoran'')"
    by (simp add: list_all_iff name_column_def)
  with a(3) show False by simp
qed

lemma in_normalized_names:
  "n \<in> normalized_names upper df \<longleftrightarrow>
     ''nama_restoran'' \<in> set (columns df) \<and>
     (\<exists>s. Str s \<in> set (name_column df) \<and> n = upper s)"
  by (auto simp: normalized_names_def split: cell.splits)

text \<open>Membership of an uppercased cell in \<open>matched_names\<close>: the cell is a string, and
  its uppercase, made by the uppercasing of its own column, is the uppercase of a string
  cell of the matched table, made by the uppercasing of the matched column.\<close>

lemma str_upper_in_matched_names:
  "str_upper ud c \<in> matched_names um g \<longleftrightarrow>
     (\<exists>s t. c = Str s \<and> Str t \<in> set (name_column g) \<and> um t = ud s)"
proof (cases c)
  case (Str s)
  have "Str (ud s) \<in> matched_names um g \<longleftrightarrow>
        (\<exists>t. Str t \<in> set (name_column g) \<and> um t = ud s)"
  proof
    assume "Str (ud s) \<in> matched_names um g"
    then obtain c' where "c' \<in> set (name_column g)" "str_upper um c' = Str (ud s)"
      by (auto simp: matched_names_def)
    then show "\<exists>t. Str t \<in> set (name_column g) \<and> um t = ud s"
      by (auto simp: str_upper_eq_Str)
  next
    assume "\<exists>t. Str t \<in> set (name_column g) \<and> um t = ud s"
    then obtain t where t: "Str t \<in> set (name_column g)" "um t = ud s" by blast
    then have "str_upper um (Str t) \<in> str_upper um ` set (name_column g)" by blast
    with t show "Str (ud s) \<in> matched_names um g"
      by (auto simp: matched_names_def)
  qed
  with Str show ?thesis by simp
qed (auto simp: matched_names_def isna_def)

lemma normalized_names_empty_if_not_ok:
  assumes "df_empty df \<or> \<not> str_accessor_ok df"
  shows "normalized_names upper df = {}"
proof (cases "''nama_restoran'' \<in> set (columns df)")
  case False
  then show ?thesis by (simp add: normalized_names_def)
next
  case True
  with assms have d: "rows df = [] \<or> list_all is_Flt (name_column df)"
    by (auto simp: df_empty_def str_accessor_ok_def)
  have "Str s \<notin> set (name_column df)" for s
    using d
  proof
    assume "rows df = []"
    then show ?thesis by (simp add: name_column_def)
  next
    assume "list_all is_Flt (name_column df)"
    then have "is_Flt (Str s)" if "Str s \<in> set (name_column df)"
      using that by (auto simp: list_all_iff)
    then show ?thesis by auto
  qed
  then show ?thesis using in_normalized_names [of _ upper df] by blast
qed

text \<open>The two ways one side ends: the table is left as it was, or it is filtered and the
  count is reported.\<close>

lemma reconcile_side_cases:
  obtains
    (unfiltered) "df_empty d \<or> df_empty g \<or> \<not> str_accessor_ok g \<or> \<not> str_accessor_ok d"
      "fst (reconcile_side l um ud g d) = d"
  | (filtered) "\<not> df_empty d" "\<not> df_empty g" "str_accessor_ok g" "str_accessor_ok d"
      "reconcile_side l um ud g d =
         (d\<lparr>rows := filter (\<lambda>r. str_upper ud (r ''nama_restoran'')
                                  \<notin> matched_names um g) (rows d)\<rparr>,
          [Info_filtered l
             (len d - int (length (filter (\<lambda>r. str_upper ud (r ''nama_restoran'')
                                                \<notin> matched_names um g) (rows d))))])"
  by (cases "df_empty d \<or> df_empty g \<or> \<not> str_accessor_ok g \<or> \<not> str_accessor_ok d")
     (auto simp: reconcile_side_def filter_out_matched_def Let_def len_def)

text \<open>What holds of the names on every run: the names left in the filtered table,
  uppercased as its own column is, are none of the matched names, uppercased as the
  matched column is.\<close>

lemma filtered_names_disjoint:
  "normalized_names um g \<inter> normalized_names ud (fst (reconcile_side l um ud g d)) = {}"
proof (cases rule: reconcile_side_cases [of d g l um ud])
  case unfiltered
  then have "normalized_names um g = {} \<or> normalized_names ud d = {}"
    using normalized_names_empty_if_not_ok by blast
  with unfiltered(2) show ?thesis by auto
next
  case filtered
  show ?thesis
  proof (rule ccontr)
    assume "\<not> ?thesis"
    then obtain n where n: "n \<in> normalized_names um g"
      "n \<in> normalized_names ud (fst (reconcile_side l um ud g d))" by blast
    from n(2) have "\<exists>s. Str s \<in> set (name_column (fst (reconcile_side l um ud g d)))
        \<and> n = ud s"
      by (simp add: in_normalized_names)
    then obtain s where s: "Str s \<in> set (name_column (fst (reconcile_side l um ud g d)))"
      "n = ud s" by blast
    from s(1) have "\<exists>r \<in> set (rows d). r ''nama_restoran'' = Str s \<and>
        str_upper ud (r ''nama_restoran'') \<notin> matched_names um g"
      by (auto simp: filtered(5) name_column_def)
    then obtain r where r: "r \<in> set (rows d)" "r ''nama_restoran'' = Str s"
      "str_upper ud (r ''nama_restoran'') \<notin> matched_names um g" by blast
    from n(1) obtain t where "Str t \<in> set (name_column g)" "n = um t"
      by (auto simp: in_normalized_names)
    with r s(2) show False
      using str_upper_in_matched_names [of ud "Str s" um g] by auto
  qed
qed

text \<open>What holds of the count on every run.\<close>

lemma removed_eq_count_matched:
  "removed_count d (fst (reconcile_side l um ud g d)) = count_matched um ud g d"
proof (cases rule: reconcile_side_cases [of d g l um ud])
  case unfiltered
  have "count_matched um ud g d = 0"
  proof (cases "''nama_restoran'' \<in> set (columns d)")
    case False
    then show ?thesis by (simp add: count_matched_def)
  next
    case True
    from unfiltered(1) have "rows d = [] \<or> normalized_names um g = {}
        \<or> list_all is_Flt (name_column d)"
      using normalized_names_empty_if_not_ok [of g um] True
      by (auto simp: str_accessor_ok_def df_empty_def)
    then consider "rows d = []" | "normalized_names um g = {}"
      | "list_all is_Flt (name_column d)" by blast
    then show ?thesis
    proof cases
      case 1
      then show ?thesis by (simp add: count_matched_def)
    next
      case 2
      then show ?thesis by (simp add: count_matched_def split: cell.splits)
    next
      case 3
      then have "\<And>r s. r \<in> set (rows d) \<Longrightarrow> r ''nama_restoran'' \<noteq> Str s"
        using all_Flt_no_Str [of d] by blast
      then have "filter (\<lambda>r. case r ''nama_restoran'' of
                               Str s \<Rightarrow> ud s \<in> normalized_names um g
                             | _ \<Rightarrow> False) (rows d) = []"
        by (auto simp: filter_empty_conv split: cell.splits)
      then show ?thesis by (simp add: count_matched_def)
    qed
  qed
  with unfiltered(2) show ?thesis by (simp add: removed_count_def)
next
  case filtered
  let ?P = "\<lambda>r. case r ''nama_restoran'' of
                  Str s \<Rightarrow> ud s \<in> normalized_names um g | _ \<Rightarrow> False"
  have col: "''nama_restoran'' \<in> set (columns g)" "''nama_restoran'' \<in> set (columns d)"
    using filtered(3,4) by (auto simp: str_accessor_ok_def)
  have eq: "(str_upper ud (r ''nama_restoran'') \<notin> matched_names um g) = (\<not> ?P r)" for r
    using str_upper_in_matched_names [of ud "r ''nama_restoran''" um g] col(1)
    by (cases "r ''nama_restoran''") (auto simp: in_normalized_names)
  have "length (filter ?P (rows d)) + length (filter (\<lambda>r. \<not> ?P r) (rows d)) = length (rows d)"
    by (rule sum_length_filter_compl)
  then show ?thesis
    by (simp add: filtered(5) eq removed_count_def count_matched_def col len_def)
qed

lemma reported_count:
  assumes "Info_filtered l' n \<in> set (snd (reconcile_side l um ud g d))"
  shows "l' = l \<and> n = removed_count d (fst (reconcile_side l um ud g d))"
  using assms
  by (auto simp: reconcile_side_def filter_out_matched_def Let_def removed_count_def
      split: if_splits)

lemma missing_name_kept:
  assumes "r \<in> set (rows d)" and "cell_isna (r ''nama_restoran'')"
  shows "r \<in> set (rows (fst (reconcile_side l um ud g d)))"
proof (cases rule: reconcile_side_cases [of d g l um ud])
  case unfiltered
  with assms(1) show ?thesis by simp
next
  case filtered
  from assms(2) have "str_upper ud (r ''nama_restoran'') \<notin> matched_names um g"
    using str_upper_in_matched_names [of ud "r ''nama_restoran''" um g] by auto
  with assms(1) show ?thesis by (simp add: filtered(5))
qed

lemma matched_names_not_missing: "c \<in> matched_names um g \<Longrightarrow> \<not> cell_isna c"
  by (auto simp: matched_names_def)

lemma missing_not_in_matched_names:
  "cell_isna c \<Longrightarrow> str_upper ud c \<notin> matched_names um g"
  using str_upper_in_matched_names [of ud c um g] by auto

lemma reconcile_side_idem:
  "fst (reconcile_side l um ud g (fst (reconcile_side l um ud g d)))
     = fst (reconcile_side l um ud g d)"
proof (cases rule: reconcile_side_cases [of d g l um ud])
  case unfiltered
  then show ?thesis by simp
next
  case filtered
  let ?d' = "fst (reconcile_side l um ud g d)"
  show ?thesis
  proof (cases rule: reconcile_side_cases [of ?d' g l um ud])
    case unfiltered
    then show ?thesis by simp
  next
    case f2: filtered
    show ?thesis by (simp add: f2(5)) (simp add: filtered(5))
  qed
qed

lemma second_run_count:
  assumes "Info_filtered l' n
             \<in> set (snd (reconcile_side l um ud g (fst (reconcile_side l um ud g d))))"
  shows "n = 0"
  using reported_count [OF assms] by (simp add: reconcile_side_idem removed_count_def)

lemma reconcile_eq:
  "reconcile ug uo ub g d1 d2 =
     ((g, fst (reconcile_side ''ESB'' ug uo g d1),
          fst (reconcile_side ''Scraping'' ug ub g d2)),
      snd (reconcile_side ''ESB'' ug uo g d1) @
      snd (reconcile_side ''Scraping'' ug ub g d2))"
  by (simp add: reconcile_def split: prod.splits)

lemma example_run:
  "reconcile ascii_upper ascii_upper ascii_upper example_green example_orange example_blue =
     ((example_green, example_orange_filtered, example_blue),
      [Info_filtered ''ESB'' 1, Info_filtered ''Scraping'' 0])"
  by (simp add: reconcile_def reconcile_side_def filter_out_matched_def example_green_def
      example_orange_def example_orange_filtered_def example_blue_def canonical_columns_def
      named_row_def df_empty_def str_accessor_ok_def name_column_def matched_names_def len_def
      Let_def ascii_upper_def upper_char_def isna_def)

lemma example_rerun:
  "reconcile ascii_upper ascii_upper ascii_upper example_green example_orange_filtered
     example_blue =
     ((example_green, example_orange_filtered, example_blue),
      [Info_filtered ''ESB'' 0, Info_filtered ''Scraping'' 0])"
  by (simp add: reconcile_def reconcile_side_def filter_out_matched_def example_green_def
      example_orange_filtered_def example_blue_def canonical_columns_def named_row_def
      df_empty_def str_accessor_ok_def name_column_def matched_names_def len_def Let_def
      ascii_upper_def upper_char_def isna_def)

text \<open>The same tables with the ESB names uppercased as Python does: on these names, which
  are ASCII, the two uppercasings agree and the run is the same.\<close>

lemma example_run_mixed:
  "reconcile ascii_upper upper_ss ascii_upper example_green example_orange example_blue =
     ((example_green, example_orange_filtered, example_blue),
      [Info_filtered ''ESB'' 1, Info_filtered ''Scraping'' 0])"
  by (simp add: reconcile_def reconcile_side_def filter_out_matched_def example_green_def
      example_orange_def example_orange_filtered_def example_blue_def canonical_columns_def
      named_row_def df_empty_def str_accessor_ok_def name_column_def matched_names_def len_def
      Let_def ascii_upper_def upper_char_def isna_def)

lemma named_row_name: "named_row n a b ''nama_restoran'' = n"
  by (simp add: named_row_def)

lemma upper_strasse:
  "ascii_upper strasse_name = ''1.0 - STRA'' @ [CHR 0xC3, CHR 0x9F] @ ''E''"
  "upper_ss strasse_name = ''1.0 - STRASSE''"
  by (simp_all add: strasse_name_def ascii_upper_def upper_char_def)

text \<open>One side on two tables of one record each, both records of the name \<open>s\<close>: the
  record is removed exactly when the two uppercasings give the same for \<open>s\<close>.\<close>

lemma single_named_side:
  "reconcile_side l um ud (single_named s a b) (single_named s c d) =
     (if um s = ud s
      then ((single_named s c d)\<lparr>rows := []\<rparr>, [Info_filtered l 1])
      else (single_named s c d, [Info_filtered l 0]))"
  by (simp add: reconcile_side_def filter_out_matched_def single_named_def
      canonical_columns_def df_empty_def str_accessor_ok_def name_column_def matched_names_def
      len_def Let_def named_row_name isna_def)

lemma single_named_names: "normalized_names u (single_named s a b) = {u s}"
  by (simp add: normalized_names_def name_column_def single_named_def
      canonical_columns_def named_row_name)

lemma single_named_count:
  "count_matched u u (single_named s a b) (single_named s c d) = 1"
proof -
  have "columns (single_named s c d) = canonical_columns"
    "rows (single_named s c d) = [named_row (Str s) c d]"
    by (simp_all add: single_named_def)
  then show ?thesis
    by (simp add: count_matched_def single_named_names canonical_columns_def named_row_name)
qed

text \<open>
  Claim C4 is right and the code misses it. The two \<open>.str.upper()\<close> calls of a block run on
  two Series; when the library uppercases the two name columns differently on a name
  \<open>s\<close>, an ESB record named \<open>s\<close> is kept although the matched table holds a record named
  \<open>s\<close>, and the count printed is 0. The name is then among the names of both tables,
  whatever single normalisation is taken.
\<close>

theorem same_name_record_kept:
  assumes "um s \<noteq> ud s"
  shows "fst (snd (fst (reconcile um ud ub (single_named s a b) (single_named s c d) blue)))
           = single_named s c d
     \<and> Info_filtered ''ESB'' 0
         \<in> set (snd (reconcile um ud ub (single_named s a b) (single_named s c d) blue))
     \<and> Str s \<in> set (name_column (single_named s a b))
     \<and> Str s \<in> set (name_column
           (fst (snd (fst (reconcile um ud ub (single_named s a b) (single_named s c d)
                             blue)))))
     \<and> u s \<in> normalized_names u (single_named s a b)
             \<inter> normalized_names u
                 (fst (snd (fst (reconcile um ud ub (single_named s a b)
                                   (single_named s c d) blue))))"
proof -
  from assms
  have side: "reconcile_side ''ESB'' um ud (single_named s a b) (single_named s c d)
      = (single_named s c d, [Info_filtered ''ESB'' 0])"
    by (simp add: single_named_side)
  have 1: "fst (snd (fst (reconcile um ud ub (single_named s a b) (single_named s c d) blue)))
           = single_named s c d"
    by (simp add: reconcile_eq side)
  have 2: "Info_filtered ''ESB'' 0
         \<in> set (snd (reconcile um ud ub (single_named s a b) (single_named s c d) blue))"
    by (simp add: reconcile_eq side)
  have 3: "Str s \<in> set (name_column (single_named s x y))" for x y
    by (simp add: name_column_def single_named_def named_row_name)
  have 4: "u s \<in> normalized_names u (single_named s a b)
             \<inter> normalized_names u (single_named s c d)"
    by (simp add: single_named_names)
  from 1 2 3 4 show ?thesis by simp
qed

theorem same_name_record_kept_witness:
  "ascii_upper strasse_name \<noteq> upper_ss strasse_name
   \<and> fst (snd (fst (reconcile ascii_upper upper_ss ascii_upper strasse_green strasse_orange
                      example_blue))) = strasse_orange
   \<and> Str strasse_name \<in> set (name_column strasse_green)
   \<and> Str strasse_name \<in> set (name_column strasse_orange)"
proof -
  have h: "ascii_upper strasse_name \<noteq> upper_ss strasse_name"
    by (simp add: upper_strasse)
  note k = same_name_record_kept [where um = ascii_upper and ud = upper_ss
      and s = strasse_name and ub = ascii_upper and a = "- 6.2" and b = "106.8"
      and c = "- 6.21" and d = "106.81" and blue = example_blue and u = ascii_upper, OF h]
  from k
  have "fst (snd (fst (reconcile ascii_upper upper_ss ascii_upper strasse_green strasse_orange
                      example_blue))) = strasse_orange"
    "Str strasse_name \<in> set (name_column strasse_green)"
    by (simp_all add: strasse_green_def strasse_orange_def)
  moreover from this
  have "Str strasse_name \<in> set (name_column strasse_orange)"
    using k by (simp add: strasse_green_def strasse_orange_def)
  ultimately show ?thesis using h by blast
qed

text \<open>
  Claim C5 is right and the code misses it, by the same defect. On the two tables of one
  record each, both of the name \<open>s\<close>, uppercased differently, no record is removed: the
  removed count is 0 and 0 is the count printed, while one ESB record has its uppercased
  name among the uppercased matched names, whatever single uppercasing is taken.
\<close>

theorem same_name_record_not_counted:
  assumes "um s \<noteq> ud s"
  shows "removed_count (single_named s c d)
           (fst (snd (fst (reconcile um ud ub (single_named s a b) (single_named s c d)
                             blue)))) = 0
     \<and> Info_filtered ''ESB'' 0
         \<in> set (snd (reconcile um ud ub (single_named s a b) (single_named s c d) blue))
     \<and> count_matched u u (single_named s a b) (single_named s c d) = 1"
proof -
  from assms
  have side: "reconcile_side ''ESB'' um ud (single_named s a b) (single_named s c d)
      = (single_named s c d, [Info_filtered ''ESB'' 0])"
    by (simp add: single_named_side)
  then show ?thesis
    by (simp add: reconcile_eq removed_count_def single_named_count)
qed

theorem same_name_record_not_counted_witness:
  "ascii_upper strasse_name \<noteq> upper_ss strasse_name
   \<and> removed_count strasse_orange
       (fst (snd (fst (reconcile ascii_upper upper_ss ascii_upper strasse_green
                         strasse_orange example_blue)))) = 0
   \<and> count_matched upper_ss upper_ss strasse_green strasse_orange = 1
   \<and> count_matched ascii_upper ascii_upper strasse_green strasse_orange = 1"
proof -
  have h: "ascii_upper strasse_name \<noteq> upper_ss strasse_name"
    by (simp add: upper_strasse)
  from same_name_record_not_counted [where um = ascii_upper and ud = upper_ss
      and s = strasse_name and ub = ascii_upper and a = "- 6.2" and b = "106.8"
      and c = "- 6.21" and d = "106.81" and blue = example_blue and u = upper_ss, OF h]
    same_name_record_not_counted [where um = ascii_upper and ud = upper_ss
      and s = strasse_name and ub = ascii_upper and a = "- 6.2" and b = "106.8"
      and c = "- 6.21" and d = "106.81" and blue = example_blue and u = ascii_upper, OF h]
  have "removed_count strasse_orange
       (fst (snd (fst (reconcile ascii_upper upper_ss ascii_upper strasse_green
                         strasse_orange example_blue)))) = 0"
    "count_matched upper_ss upper_ss strasse_green strasse_orange = 1"
    "count_matched ascii_upper ascii_upper strasse_green strasse_orange = 1"
    by (simp_all add: strasse_green_def strasse_orange_def)
  with h show ?thesis by blast
qed

text \<open>
  Claim C6. When the matched table is empty, both blocks are skipped: the ESB table and the
  scraping table come back as they were, no message is printed, no record is removed from
  either (the removed count is 0) and no record of either has a name among the matched
  names.
\<close>

theorem empty_matched_pass_through:
  assumes "df_empty green_data"
  shows "reconcile upper_green upper_orange upper_blue green_data orange_data blue_data
           = ((green_data, orange_data, blue_data), [])
     \<and> removed_count orange_data
         (fst (snd (fst (reconcile upper_green upper_orange upper_blue
                           green_data orange_data blue_data)))) = 0
     \<and> removed_count blue_data
         (snd (snd (fst (reconcile upper_green upper_orange upper_blue
                           green_data orange_data blue_data)))) = 0
     \<and> count_matched upper_green upper_orange green_data orange_data = 0
     \<and> count_matched upper_green upper_blue green_data blue_data = 0"
proof -
  from assms have f: "reconcile_side l um ud green_data d = (d, [])" for l um ud d
    by (simp add: reconcile_side_def filter_out_matched_def)
  then have r: "reconcile upper_green upper_orange upper_blue green_data orange_data blue_data
           = ((green_data, orange_data, blue_data), [])"
    by (simp add: reconcile_eq)
  have c: "count_matched um ud green_data d = 0" for um ud d
    using removed_eq_count_matched [of d "''ESB''" um ud green_data]
    by (simp add: f removed_count_def)
  from r c show ?thesis by (simp add: removed_count_def)
qed

theorem empty_matched_pass_through_witness:
  "df_empty pd_DataFrame
   \<and> reconcile ascii_upper upper_ss ascii_upper pd_DataFrame example_orange example_blue
       = ((pd_DataFrame, example_orange, example_blue), [])
   \<and> len example_orange = 2"
proof -
  have e: "df_empty pd_DataFrame"
    by (simp add: df_empty_def pd_DataFrame_def)
  have "len example_orange = 2"
    by (simp add: len_def example_orange_def)
  with e empty_matched_pass_through [OF e, of ascii_upper upper_ss ascii_upper
      example_orange example_blue]
  show ?thesis by blast
qed

text \<open>
  Claim C7, as stated, fails on the removed counts: on the example tables the first run
  removes one ESB record and prints the count 1, and the run on its three outputs prints
  the count 0.
\<close>

theorem rerun_counts_differ:
  "reconcile ascii_upper ascii_upper ascii_upper example_green example_orange example_blue =
     ((example_green, example_orange_filtered, example_blue),
      [Info_filtered ''ESB'' 1, Info_filtered ''Scraping'' 0])
   \<and> reconcile ascii_upper ascii_upper ascii_upper example_green example_orange_filtered
       example_blue =
     ((example_green, example_orange_filtered, example_blue),
      [Info_filtered ''ESB'' 0, Info_filtered ''Scraping'' 0])
   \<and> snd (reconcile ascii_upper ascii_upper ascii_upper example_green example_orange
            example_blue)
       \<noteq> snd (reconcile ascii_upper ascii_upper ascii_upper example_green
                example_orange_filtered example_blue)"
  by (simp add: example_run example_rerun)

text \<open>
  Claim C7, amended. Applying the reconciliation again to its own three outputs yields the
  same three tables, and every removed count printed by that second application is 0.
  Counted against the tables given to the first run, as many records are removed after the
  second application as after the first.
\<close>

theorem reconcile_outputs_idempotent:
  assumes "reconcile upper_green upper_orange upper_blue green_data orange_data blue_data
             = ((green', orange', blue'), msgs)"
  shows "fst (reconcile upper_green upper_orange upper_blue green' orange' blue')
           = (green', orange', blue')
     \<and> (\<forall>l n. Info_filtered l n
                 \<in> set (snd (reconcile upper_green upper_orange upper_blue
                               green' orange' blue'))
              \<longrightarrow> n = 0)
     \<and> removed_count orange_data
         (fst (snd (fst (reconcile upper_green upper_orange upper_blue
                           green' orange' blue'))))
         = removed_count orange_data orange'
     \<and> removed_count blue_data
         (snd (snd (fst (reconcile upper_green upper_orange upper_blue
                           green' orange' blue'))))
         = removed_count blue_data blue'"
proof -
  from assms have out: "green' = green_data"
    "orange' = fst (reconcile_side ''ESB'' upper_green upper_orange green_data orange_data)"
    "blue' = fst (reconcile_side ''Scraping'' upper_green upper_blue green_data blue_data)"
    by (auto simp: reconcile_eq)
  have 1: "fst (reconcile upper_green upper_orange upper_blue green' orange' blue')
      = (green', orange', blue')"
    by (simp add: reconcile_eq out reconcile_side_idem)
  have 2: "n = 0"
    if "Info_filtered l n
          \<in> set (snd (reconcile upper_green upper_orange upper_blue green' orange' blue'))"
    for l n
  proof -
    from that have "Info_filtered l n
          \<in> set (snd (reconcile_side ''ESB'' upper_green upper_orange green_data
                (fst (reconcile_side ''ESB'' upper_green upper_orange green_data
                        orange_data))))
        \<or> Info_filtered l n
          \<in> set (snd (reconcile_side ''Scraping'' upper_green upper_blue green_data
                (fst (reconcile_side ''Scraping'' upper_green upper_blue green_data
                        blue_data))))"
      by (simp add: reconcile_eq out)
    then show ?thesis using second_run_count by blast
  qed
  from 1 have 3:
    "removed_count orange_data
       (fst (snd (fst (reconcile upper_green upper_orange upper_blue green' orange' blue'))))
       = removed_count orange_data orange'"
    "removed_count blue_data
       (snd (snd (fst (reconcile upper_green upper_orange upper_blue green' orange' blue'))))
       = removed_count blue_data blue'"
    by simp_all
  from 1 2 3 show ?thesis by blast
qed

theorem reconcile_outputs_idempotent_witness:
  "reconcile ascii_upper upper_ss ascii_upper example_green example_orange example_blue =
     ((example_green, example_orange_filtered, example_blue),
      [Info_filtered ''ESB'' 1, Info_filtered ''Scraping'' 0])
   \<and> fst (reconcile ascii_upper upper_ss ascii_upper example_green example_orange_filtered
            example_blue)
       = (example_green, example_orange_filtered, example_blue)"
  using reconcile_outputs_idempotent [OF example_run_mixed] example_run_mixed by blast

text \<open>
  Claim C9. A record of the ESB table or of the scraping table whose name is missing is in
  the filtered table. The set of matched names holds no missing cell, and a missing name,
  uppercased, is not a member of it.
\<close>

theorem missing_name_retained:
  assumes "reconcile upper_green upper_orange upper_blue green_data orange_data blue_data
             = ((green', orange', blue'), msgs)"
  shows "(r \<in> set (rows orange_data) \<and> cell_isna (r ''nama_restoran'')
            \<longrightarrow> r \<in> set (rows orange'))
     \<and> (r \<in> set (rows blue_data) \<and> cell_isna (r ''nama_restoran'')
            \<longrightarrow> r \<in> set (rows blue'))
     \<and> (\<forall>c \<in> matched_names upper_green green_data. \<not> cell_isna c)
     \<and> (cell_isna c \<longrightarrow> str_upper upper_orange c \<notin> matched_names upper_green green_data)
     \<and> (cell_isna c \<longrightarrow> str_upper upper_blue c \<notin> matched_names upper_green green_data)"
proof -
  from assms have out:
    "orange' = fst (reconcile_side ''ESB'' upper_green upper_orange green_data orange_data)"
    "blue' = fst (reconcile_side ''Scraping'' upper_green upper_blue green_data blue_data)"
    by (auto simp: reconcile_eq)
  show ?thesis
    unfolding out
    using missing_name_kept matched_names_not_missing missing_not_in_matched_names
    by blast
qed

theorem missing_name_retained_witness:
  "reconcile ascii_upper upper_ss ascii_upper example_green example_orange example_blue =
     ((example_green, example_orange_filtered, example_blue),
      [Info_filtered ''ESB'' 1, Info_filtered ''Scraping'' 0])
   \<and> named_row Null (- 7.0) 110.0 \<in> set (rows example_orange)
   \<and> cell_isna (named_row Null (- 7.0) 110.0 ''nama_restoran'')
   \<and> named_row Null (- 7.0) 110.0 \<in> set (rows example_orange_filtered)"
proof -
  have a: "named_row Null (- 7.0) 110.0 \<in> set (rows example_orange)"
    by (simp add: example_orange_def)
  have b: "cell_isna (named_row Null (- 7.0) 110.0 ''nama_restoran'')"
    by (simp add: named_row_name)
  from missing_name_retained [OF example_run_mixed, of "named_row Null (- 7.0) 110.0"] a b
  have "named_row Null (- 7.0) 110.0 \<in> set (rows example_orange_filtered)"
    by blast
  with example_run_mixed a b show ?thesis by blast
qed

end
